theory Spec2Isabelle
  imports Main
begin

section \<open>openai-mokku: request interception and response synthesis\<close>

text \<open>
  A shallow embedding of \<^verbatim>\<open>handler.go\<close> (the non-streaming handlers) and
  \<^verbatim>\<open>streaming.go\<close> (the intercepting \<^verbatim>\<open>StreamingHandler\<close>).
  A Go \<^verbatim>\<open>string\<close> and a \<^verbatim>\<open>[]byte\<close> are sequences of bytes, so both are
  \<^typ>\<open>string\<close> (a list of 8-bit characters) and Go's \<^verbatim>\<open>len\<close> is \<^const>\<open>length\<close>.
  Tracing calls (\<^verbatim>\<open>tracer.Start\<close>, \<^verbatim>\<open>span.SetAttributes\<close>, \<^verbatim>\<open>span.End\<close>) only
  feed the telemetry sink and are left out.
\<close>

subsection \<open>Formatting\<close>

text \<open>
  \<^verbatim>\<open>fmt.Sprintf\<close> restricted to string operands. The verb \<^verbatim>\<open>%s\<close> copies the bytes of
  the next operand, \<^verbatim>\<open>%%\<close> is a percent sign, a missing operand prints
  \<^verbatim>\<open>%!s(MISSING)\<close>, a format that ends in a lone percent sign prints \<^verbatim>\<open>%!(NOVERB)\<close>,
  any other verb applied to a string prints \<^verbatim>\<open>%!v(string=...)\<close>, and operands left
  over are reported by \<^verbatim>\<open>%!(EXTRA ...)\<close>.
\<close>

fun extraArgs :: "string list \<Rightarrow> string" where
  "extraArgs [] = []"
| "extraArgs [a] = ''string='' @ a"
| "extraArgs (a # b # as) = ''string='' @ a @ '', '' @ extraArgs (b # as)"

fun Sprintf :: "string \<Rightarrow> string list \<Rightarrow> string" where
  "Sprintf [] [] = []"
| "Sprintf [] (a # as) = ''%!(EXTRA '' @ extraArgs (a # as) @ '')''"
| "Sprintf (c # fs) args =
     (if c = CHR ''%'' then
        (case fs of
           [] \<Rightarrow> ''%!(NOVERB)'' @ Sprintf [] args
         | v # rest \<Rightarrow>
             if v = CHR ''%'' then CHR ''%'' # Sprintf rest args
             else
               (case args of
                  [] \<Rightarrow> ''%!'' @ [v] @ ''(MISSING)'' @ Sprintf rest []
                | a # as \<Rightarrow>
                    if v = CHR ''s'' then a @ Sprintf rest as
                    else ''%!'' @ [v] @ ''(string='' @ a @ '')'' @ Sprintf rest as))
      else c # Sprintf fs args)"

subsection \<open>The echo synthesizer\<close>

text \<open>\<^verbatim>\<open>generateEchoResponse\<close> in handler.go: \<^verbatim>\<open>fmt.Sprintf("Echo: %s", message)\<close>.\<close>

definition generateEchoResponse :: "string \<Rightarrow> string" where
  "generateEchoResponse message = Sprintf ''Echo: %s'' [message]"

text \<open>\<^verbatim>\<open>generateEchoResponseForStreaming\<close> in streaming.go, the same format.\<close>

definition generateEchoResponseForStreaming :: "string \<Rightarrow> string" where
  "generateEchoResponseForStreaming message = Sprintf ''Echo: %s'' [message]"

subsection \<open>The response writer\<close>

text \<open>
  An \<^verbatim>\<open>http.ResponseWriter\<close> as a recorder of what the handler does to it: the header
  map, the status line once it is written, and the sequence of \<^verbatim>\<open>Write\<close> and
  \<^verbatim>\<open>Flush\<close> calls. Two fields describe the transport: whether the writer implements
  \<^verbatim>\<open>http.Flusher\<close>, and which \<^verbatim>\<open>Write\<close> calls (numbered from 0) return an error,
  as they do once the client has gone away.
\<close>

datatype event = Wrote string | Flushed

record ResponseWriter =
  header :: "string \<rightharpoonup> string"
  status :: "nat option"
  events :: "event list"
  isFlusher :: bool
  writeFails :: "nat \<Rightarrow> bool"

fun writesOf :: "event list \<Rightarrow> string list" where
  "writesOf [] = []"
| "writesOf (Wrote s # es) = s # writesOf es"
| "writesOf (Flushed # es) = writesOf es"

definition writes :: "ResponseWriter \<Rightarrow> string list" where
  "writes w = writesOf (events w)"

text \<open>The writer the server hands to the handler: nothing set, nothing written.\<close>

definition newResponse :: "bool \<Rightarrow> (nat \<Rightarrow> bool) \<Rightarrow> ResponseWriter" where
  "newResponse flusher fails =
     \<lparr>header = Map.empty, status = None, events = [], isFlusher = flusher, writeFails = fails\<rparr>"

definition HeaderSet :: "ResponseWriter \<Rightarrow> string \<Rightarrow> string \<Rightarrow> ResponseWriter" where
  "HeaderSet w k v = w\<lparr>header := (header w)(k \<mapsto> v)\<rparr>"

definition HeaderDel :: "ResponseWriter \<Rightarrow> string \<Rightarrow> ResponseWriter" where
  "HeaderDel w k = w\<lparr>header := (header w)(k := None)\<rparr>"

text \<open>Only the first \<^verbatim>\<open>WriteHeader\<close> fixes the status; a later one is ignored.\<close>

definition WriteHeader :: "ResponseWriter \<Rightarrow> nat \<Rightarrow> ResponseWriter" where
  "WriteHeader w code = (if status w = None then w\<lparr>status := Some code\<rparr> else w)"

text \<open>
  \<^verbatim>\<open>w.Write(p)\<close>: an implicit \<^verbatim>\<open>WriteHeader(200)\<close> when no status was written, then
  the bytes. The second component is the error flag (\<^verbatim>\<open>err != nil\<close>).
\<close>

definition Write :: "ResponseWriter \<Rightarrow> string \<Rightarrow> ResponseWriter \<times> bool" where
  "Write w p =
     (let w1 = WriteHeader w 200
      in (w1\<lparr>events := events w1 @ [Wrote p]\<rparr>, writeFails w1 (length (writes w1))))"

definition Flush :: "ResponseWriter \<Rightarrow> ResponseWriter" where
  "Flush w = (let w1 = WriteHeader w 200 in w1\<lparr>events := events w1 @ [Flushed]\<rparr>)"

text \<open>\<^verbatim>\<open>fmt.Fprintf(w, format, args...)\<close>: the formatted text in one \<^verbatim>\<open>Write\<close>.\<close>

definition Fprintf :: "ResponseWriter \<Rightarrow> string \<Rightarrow> string list \<Rightarrow> ResponseWriter \<times> bool" where
  "Fprintf w format args = Write w (Sprintf format args)"

text \<open>
  \<^verbatim>\<open>http.Error(w, msg, code)\<close> of the standard library: plain-text headers, the status,
  and the message with a newline.
\<close>

definition http_Error :: "ResponseWriter \<Rightarrow> string \<Rightarrow> nat \<Rightarrow> ResponseWriter" where
  "http_Error w msg code =
     (let w1 = HeaderDel w ''Content-Length'';
          w2 = HeaderSet w1 ''Content-Type'' ''text/plain; charset=utf-8'';
          w3 = HeaderSet w2 ''X-Content-Type-Options'' ''nosniff'';
          w4 = WriteHeader w3 code
      in fst (Write w4 (msg @ ''\<newline>'')))"

subsection \<open>The body re-reader\<close>

record bytesReader =
  data :: string
  pos :: int

definition newBytesReader :: "string \<Rightarrow> bytesReader" where
  "newBytesReader d = \<lparr>data = d, pos = 0\<rparr>"

datatype ioError = EOF

text \<open>
  \<^verbatim>\<open>(r *bytesReader) Read(p)\<close>. The result is \<^verbatim>\<open>Inl\<close> for a run-time panic (the slice
  expression \<^verbatim>\<open>r.data[r.pos:]\<close> with a negative bound), otherwise the count \<^verbatim>\<open>n\<close>, the
  error, the buffer \<^verbatim>\<open>p\<close> after \<^verbatim>\<open>copy\<close>, and the reader after \<^verbatim>\<open>r.pos += n\<close>.
  \<^verbatim>\<open>copy\<close> moves as many bytes as the shorter of its two arguments holds.
\<close>

definition Read :: "bytesReader \<Rightarrow> string \<Rightarrow> string + (nat \<times> ioError option \<times> string \<times> bytesReader)" where
  "Read r p =
     (if pos r \<ge> int (length (data r)) then Inr (0, Some EOF, p, r)
      else if pos r < 0 then Inl ''slice bounds out of range''
      else
        (let src = drop (nat (pos r)) (data r);
             n = min (length p) (length src)
         in Inr (n, None, take n src @ drop n p, r\<lparr>pos := pos r + int n\<rparr>)))"

text \<open>
  A consumer of the reader: it calls \<^verbatim>\<open>Read\<close> with each buffer of the list in turn,
  collects \<^verbatim>\<open>p[:n]\<close> after every call and stops at the first error. It returns the
  bytes collected, whether \<^verbatim>\<open>io.EOF\<close> was seen, and the reader.
\<close>

fun readEach :: "bytesReader \<Rightarrow> string list \<Rightarrow> string + (string \<times> bool \<times> bytesReader)" where
  "readEach r [] = Inr ([], False, r)"
| "readEach r (p # ps) =
     (case Read r p of
        Inl e \<Rightarrow> Inl e
      | Inr (n, err, p', r') \<Rightarrow>
          (case err of
             Some EOF \<Rightarrow> Inr (take n p', True, r')
           | None \<Rightarrow>
               (case readEach r' ps of
                  Inl e \<Rightarrow> Inl e
                | Inr (out, eof, r'') \<Rightarrow> Inr (take n p' @ out, eof, r''))))"

text \<open>
  \<^verbatim>\<open>io.ReadAll\<close> on the reader: \<^verbatim>\<open>Read\<close> into free buffer space (never empty; 512
  bytes here) until an error, where \<^verbatim>\<open>io.EOF\<close> counts as success. \<^verbatim>\<open>None\<close> is a panic.
\<close>

function readAllFrom :: "bytesReader \<Rightarrow> string \<Rightarrow> string option" where
  "readAllFrom r acc =
     (case Read r (replicate 512 (CHR 0x00)) of
        Inl e \<Rightarrow> None
      | Inr (n, err, p', r') \<Rightarrow>
          (case err of
             Some EOF \<Rightarrow> Some (acc @ take n p')
           | None \<Rightarrow> readAllFrom r' (acc @ take n p')))"
  by pat_completeness auto
termination
  by (relation "measure (\<lambda>(r, acc). nat (int (length (data r)) - pos r))")
     (auto simp: Read_def Let_def split: if_splits)

text \<open>
  A request body (\<^verbatim>\<open>io.ReadCloser\<close>) is either the live connection, described by the
  bytes it delivers and whether it ends in a read error instead of end of file, or
  \<^verbatim>\<open>io.NopCloser\<close> around a \<^verbatim>\<open>bytesReader\<close>.
\<close>

datatype ReadCloser = NetBody string bool | NopCloser bytesReader

text \<open>\<^verbatim>\<open>io.ReadAll(r.Body)\<close>; \<^verbatim>\<open>None\<close> when it returns an error.\<close>

fun ReadAll :: "ReadCloser \<Rightarrow> string option" where
  "ReadAll (NetBody d failed) = (if failed then None else Some d)"
| "ReadAll (NopCloser r) = readAllFrom r []"

record Request =
  Method :: string
  Path :: string
  Body :: ReadCloser

subsection \<open>Request and response types\<close>

text \<open>
  Modelled from the spec: the declarations of package \<^verbatim>\<open>api\<close> (generated code, not
  part of the sources at hand). An optional parameter is a value with a presence
  flag (\<^verbatim>\<open>OptBool\<close>, \<^verbatim>\<open>OptString\<close>, \<^verbatim>\<open>OptCompletionUsage\<close>); \<^verbatim>\<open>NilString\<close> is a
  string with a null flag. Only the request fields that the handlers read outside
  of tracing are kept.
\<close>

record 'a Opt =
  Value :: 'a
  IsSet :: bool

record NilString =
  ns_Value :: string
  ns_Null :: bool

definition NewOpt :: "'a \<Rightarrow> 'a Opt" where
  "NewOpt v = \<lparr>Value = v, IsSet = True\<rparr>"

definition NewNilString :: "string \<Rightarrow> NilString" where
  "NewNilString v = \<lparr>ns_Value = v, ns_Null = False\<rparr>"

record ChatCompletionRequestMessage =
  Role :: string
  Content :: string

record CreateChatCompletionRequest =
  rq_Model :: string
  Messages :: "ChatCompletionRequestMessage list"
  Stream :: "bool Opt"

text \<open>
  Modelled from the spec: the prompt of a completions request, a tagged union of a
  string and a list of strings with one accessor pair for each variant. The tag of
  a zero value is neither variant.
\<close>

datatype CreateCompletionRequestPromptType =
  NoPromptType | StringCreateCompletionRequestPrompt | StringArrayCreateCompletionRequestPrompt

record CreateCompletionRequestPrompt =
  Type :: CreateCompletionRequestPromptType
  String :: string
  StringArray :: "string list"

definition IsString :: "CreateCompletionRequestPrompt \<Rightarrow> bool" where
  "IsString s = (Type s = StringCreateCompletionRequestPrompt)"

definition IsStringArray :: "CreateCompletionRequestPrompt \<Rightarrow> bool" where
  "IsStringArray s = (Type s = StringArrayCreateCompletionRequestPrompt)"

definition GetString :: "CreateCompletionRequestPrompt \<Rightarrow> string \<times> bool" where
  "GetString s = (if \<not> IsString s then ([], False) else (String s, True))"

definition GetStringArray :: "CreateCompletionRequestPrompt \<Rightarrow> string list \<times> bool" where
  "GetStringArray s = (if \<not> IsStringArray s then ([], False) else (StringArray s, True))"

record CreateCompletionRequest =
  cq_Model :: string
  Prompt :: CreateCompletionRequestPrompt

text \<open>Modelled from the spec: the values of the enumeration constants of package \<^verbatim>\<open>api\<close>.\<close>

definition ChatCompletionRequestMessageRoleUser :: string where
  "ChatCompletionRequestMessageRoleUser = ''user''"

definition ChatCompletionResponseMessageRoleAssistant :: string where
  "ChatCompletionResponseMessageRoleAssistant = ''assistant''"

definition ChatCompletionChoiceFinishReasonStop :: string where
  "ChatCompletionChoiceFinishReasonStop = ''stop''"

definition CompletionChoiceFinishReasonStop :: string where
  "CompletionChoiceFinishReasonStop = ''stop''"

definition CreateChatCompletionResponseObjectChatCompletion :: string where
  "CreateChatCompletionResponseObjectChatCompletion = ''chat.completion''"

definition CreateCompletionResponseObjectTextCompletion :: string where
  "CreateCompletionResponseObjectTextCompletion = ''text_completion''"

definition ModelObjectModel :: string where
  "ModelObjectModel = ''model''"

record CompletionUsage =
  PromptTokens :: int
  CompletionTokens :: int
  TotalTokens :: int

record ChatCompletionResponseMessage =
  rm_Role :: string
  rm_Content :: NilString

record ChatCompletionChoice =
  cc_Index :: int
  cc_Message :: ChatCompletionResponseMessage
  cc_FinishReason :: string

record CreateChatCompletionResponse =
  cr_ID :: string
  cr_Object :: string
  cr_Created :: int
  cr_Model :: string
  cr_Choices :: "ChatCompletionChoice list"
  cr_Usage :: "CompletionUsage Opt"
  cr_SystemFingerprint :: "string Opt"

record CompletionChoice =
  tc_Index :: int
  tc_Text :: string
  tc_FinishReason :: string

record CreateCompletionResponse =
  tr_ID :: string
  tr_Object :: string
  tr_Created :: int
  tr_Model :: string
  tr_Choices :: "CompletionChoice list"
  tr_Usage :: "CompletionUsage Opt"
  tr_SystemFingerprint :: "string Opt"

record Model =
  m_ID :: string
  m_Object :: string
  m_Created :: int
  m_OwnedBy :: string

record ListModelsResponse =
  lm_Object :: string
  lm_Data :: "Model list"

record RetrieveModelParams =
  pm_Model :: string

text \<open>The types declared in streaming.go.\<close>

record modelRequest =
  mr_Model :: string

record OpenAIErrorDetail =
  Message :: string
  ed_Type :: string
  Param :: "string option"
  Code :: string

record OpenAIError =
  Error :: OpenAIErrorDetail

record ChatCompletionChunkDelta =
  d_Role :: string
  d_Content :: string

record ChatCompletionChunkChoice =
  Index :: int
  Delta :: ChatCompletionChunkDelta
  FinishReason :: "string option"

record ChatCompletionChunk =
  ID :: string
  Object :: string
  Created :: int
  ck_Model :: string
  SystemFingerprint :: string
  Choices :: "ChatCompletionChunkChoice list"

subsection \<open>What the handlers take from outside\<close>

text \<open>
  The library calls whose results the handlers branch on or copy: the two uses of
  \<^verbatim>\<open>json.Unmarshal\<close> (\<^verbatim>\<open>None\<close> for an error), \<^verbatim>\<open>json.Marshal\<close> of a chunk and of
  the error payload (\<^verbatim>\<open>None\<close> for an error), the text of \<^verbatim>\<open>uuid.New()\<close> and the
  seconds of \<^verbatim>\<open>time.Now()\<close>.
\<close>

record Env =
  jsonUnmarshalModel :: "string \<Rightarrow> modelRequest option"
  jsonUnmarshalChat :: "string \<Rightarrow> CreateChatCompletionRequest option"
  jsonMarshalChunk :: "ChatCompletionChunk \<Rightarrow> string option"
  jsonMarshalError :: "OpenAIError \<Rightarrow> string option"
  uuidNew :: string
  timeNow :: int

subsection \<open>handler.go\<close>

text \<open>
  The scan for the last user message, written twice in the sources
  (\<^verbatim>\<open>CreateChatCompletion\<close> and \<^verbatim>\<open>handleStreamingRequest\<close>):
  \<^verbatim>\<open>for i := len(req.Messages) - 1; i >= 0; i-- { if ... { lastUserMessage = ...; break } }\<close>
  over a variable that starts as the empty string. The index stays below the length
  of the list, so \<^verbatim>\<open>req.Messages[i]\<close> is always in range.
\<close>

function lastUserLoop :: "ChatCompletionRequestMessage list \<Rightarrow> int \<Rightarrow> string" where
  "lastUserLoop ms i =
     (if i \<ge> 0 then
        (if Role (ms ! nat i) = ChatCompletionRequestMessageRoleUser then Content (ms ! nat i)
         else lastUserLoop ms (i - 1))
      else [])"
  by pat_completeness auto
termination
  by (relation "measure (\<lambda>(ms, i). nat (i + 1))") auto

definition lastUserMessage :: "ChatCompletionRequestMessage list \<Rightarrow> string" where
  "lastUserMessage ms = lastUserLoop ms (int (length ms) - 1)"

text \<open>
  The handlers return a response and a Go \<^verbatim>\<open>error\<close>; \<^verbatim>\<open>Inr\<close> is the response
  with a nil error. The token counts are Go \<^verbatim>\<open>int\<close>s computed by \<^verbatim>\<open>len\<close>.
\<close>

definition CreateChatCompletion ::
    "Env \<Rightarrow> CreateChatCompletionRequest \<Rightarrow> string + CreateChatCompletionResponse" where
  "CreateChatCompletion env req =
     (let lastUser = lastUserMessage (Messages req);
          echoMessage = generateEchoResponse lastUser
      in Inr
        \<lparr>cr_ID = ''chatcmpl-'' @ uuidNew env,
         cr_Object = CreateChatCompletionResponseObjectChatCompletion,
         cr_Created = timeNow env,
         cr_Model = rq_Model req,
         cr_Choices =
           [\<lparr>cc_Index = 0,
             cc_Message =
               \<lparr>rm_Role = ChatCompletionResponseMessageRoleAssistant,
                rm_Content = NewNilString echoMessage\<rparr>,
             cc_FinishReason = ChatCompletionChoiceFinishReasonStop\<rparr>],
         cr_Usage = NewOpt
           \<lparr>PromptTokens = int (length lastUser),
            CompletionTokens = int (length echoMessage),
            TotalTokens = int (length lastUser) + int (length echoMessage)\<rparr>,
         cr_SystemFingerprint = NewOpt ''fp_mock''\<rparr>)"

text \<open>The prompt resolution at the head of \<^verbatim>\<open>CreateCompletion\<close>.\<close>

definition resolvePrompt :: "CreateCompletionRequestPrompt \<Rightarrow> string" where
  "resolvePrompt pr =
     (if IsString pr then fst (GetString pr)
      else if IsStringArray pr then
        (let arr = fst (GetStringArray pr)
         in if length arr > 0 then arr ! 0 else [])
      else [])"

definition CreateCompletion ::
    "Env \<Rightarrow> CreateCompletionRequest \<Rightarrow> string + CreateCompletionResponse" where
  "CreateCompletion env req =
     (let prompt = resolvePrompt (Prompt req);
          echoText = generateEchoResponse prompt
      in Inr
        \<lparr>tr_ID = ''cmpl-'' @ uuidNew env,
         tr_Object = CreateCompletionResponseObjectTextCompletion,
         tr_Created = timeNow env,
         tr_Model = cq_Model req,
         tr_Choices =
           [\<lparr>tc_Index = 0, tc_Text = echoText,
             tc_FinishReason = CompletionChoiceFinishReasonStop\<rparr>],
         tr_Usage = NewOpt
           \<lparr>PromptTokens = int (length prompt),
            CompletionTokens = int (length echoText),
            TotalTokens = int (length prompt) + int (length echoText)\<rparr>,
         tr_SystemFingerprint = NewOpt ''fp_mock''\<rparr>)"

text \<open>\<^verbatim>\<open>ListModels\<close> reads the clock once for each entry.\<close>

definition ListModels :: "int \<Rightarrow> int \<Rightarrow> int \<Rightarrow> string + ListModelsResponse" where
  "ListModels t1 t2 t3 =
     Inr \<lparr>lm_Object = ''list'',
          lm_Data =
            [\<lparr>m_ID = ''mokku-echo-1'', m_Object = ModelObjectModel, m_Created = t1,
              m_OwnedBy = ''openai-mokku''\<rparr>,
             \<lparr>m_ID = ''gpt-4o'', m_Object = ModelObjectModel, m_Created = t2,
              m_OwnedBy = ''openai-mokku''\<rparr>,
             \<lparr>m_ID = ''gpt-4o-mini'', m_Object = ModelObjectModel, m_Created = t3,
              m_OwnedBy = ''openai-mokku''\<rparr>]\<rparr>"

definition RetrieveModel :: "Env \<Rightarrow> RetrieveModelParams \<Rightarrow> string + Model" where
  "RetrieveModel env params =
     Inr \<lparr>m_ID = pm_Model params, m_Object = ModelObjectModel, m_Created = timeNow env,
          m_OwnedBy = ''openai-mokku''\<rparr>"

text \<open>
  Modelled from the spec: the generated server answers \<^verbatim>\<open>GET /models/{model}\<close> with
  status 200 and the descriptor when the handler returns a nil error, and with an
  error status otherwise.
\<close>

definition encodeRetrieveModel :: "string + Model \<Rightarrow> nat \<times> Model option" where
  "encodeRetrieveModel res = (case res of Inl e \<Rightarrow> (500, None) | Inr m \<Rightarrow> (200, Some m))"

subsection \<open>streaming.go\<close>

definition CreditErrorModelName :: string where
  "CreditErrorModelName = ''credit-error''"

definition creditErrorResp :: OpenAIError where
  "creditErrorResp =
     \<lparr>Error =
        \<lparr>Message = ''You exceeded your current quota, please check your plan and billing details. For more information on this error, read the docs: https://platform.openai.com/docs/guides/error-codes/api-errors.'',
         ed_Type = ''insufficient_quota'',
         Param = None,
         Code = ''insufficient_quota''\<rparr>\<rparr>"

text \<open>
  \<^verbatim>\<open>writeCreditError\<close>. \<^verbatim>\<open>json.NewEncoder(w).Encode(v)\<close> writes the encoding of \<open>v\<close>
  and a newline in one \<^verbatim>\<open>Write\<close>, or nothing when encoding fails; its error is
  dropped by the caller.
\<close>

definition writeCreditError :: "Env \<Rightarrow> ResponseWriter \<Rightarrow> ResponseWriter" where
  "writeCreditError env w =
     (let w1 = HeaderSet w ''Content-Type'' ''application/json'';
          w2 = WriteHeader w1 402
      in (case jsonMarshalError env creditErrorResp of
            None \<Rightarrow> w2
          | Some d \<Rightarrow> fst (Write w2 (d @ ''\<newline>''))))"

text \<open>
  \<^verbatim>\<open>readBodyAndCheckCreditError\<close>: the writer after the call, the body (empty for
  \<^verbatim>\<open>nil\<close>) and the flag \<^verbatim>\<open>handled\<close>.
\<close>

definition readBodyAndCheckCreditError ::
    "Env \<Rightarrow> ResponseWriter \<Rightarrow> Request \<Rightarrow> ResponseWriter \<times> string \<times> bool" where
  "readBodyAndCheckCreditError env w r =
     (case ReadAll (Body r) of
        None \<Rightarrow> (http_Error w ''Failed to read request body'' 400, [], True)
      | Some body \<Rightarrow>
          (case jsonUnmarshalModel env body of
             None \<Rightarrow> (http_Error w ''Failed to parse request body'' 400, [], True)
           | Some req \<Rightarrow>
               if mr_Model req = CreditErrorModelName then (writeCreditError env w, [], True)
               else (w, body, False)))"

text \<open>\<^verbatim>\<open>writeSSEChunk\<close>: the writer after the call and the error flag.\<close>

definition writeSSEChunk :: "Env \<Rightarrow> ResponseWriter \<Rightarrow> ChatCompletionChunk \<Rightarrow> ResponseWriter \<times> bool" where
  "writeSSEChunk env w chunk =
     (case jsonMarshalChunk env chunk of
        None \<Rightarrow> (w, True)
      | Some d \<Rightarrow> Fprintf w ''data: %s\<newline>\<newline>'' [d])"

text \<open>The three chunk literals of \<^verbatim>\<open>handleStreamingRequest\<close>.\<close>

definition firstChunk :: "string \<Rightarrow> int \<Rightarrow> CreateChatCompletionRequest \<Rightarrow> ChatCompletionChunk" where
  "firstChunk completionID created req =
     \<lparr>ID = completionID, Object = ''chat.completion.chunk'', Created = created,
      ck_Model = rq_Model req, SystemFingerprint = ''fp_mock'',
      Choices =
        [\<lparr>Index = 0, Delta = \<lparr>d_Role = ''assistant'', d_Content = []\<rparr>,
          FinishReason = None\<rparr>]\<rparr>"

definition contentChunk ::
    "string \<Rightarrow> int \<Rightarrow> CreateChatCompletionRequest \<Rightarrow> string \<Rightarrow> ChatCompletionChunk" where
  "contentChunk completionID created req echoMessage =
     \<lparr>ID = completionID, Object = ''chat.completion.chunk'', Created = created,
      ck_Model = rq_Model req, SystemFingerprint = ''fp_mock'',
      Choices =
        [\<lparr>Index = 0, Delta = \<lparr>d_Role = [], d_Content = echoMessage\<rparr>,
          FinishReason = None\<rparr>]\<rparr>"

definition finalChunk :: "string \<Rightarrow> int \<Rightarrow> CreateChatCompletionRequest \<Rightarrow> ChatCompletionChunk" where
  "finalChunk completionID created req =
     \<lparr>ID = completionID, Object = ''chat.completion.chunk'', Created = created,
      ck_Model = rq_Model req, SystemFingerprint = ''fp_mock'',
      Choices =
        [\<lparr>Index = 0, Delta = \<lparr>d_Role = [], d_Content = []\<rparr>,
          FinishReason = Some ''stop''\<rparr>]\<rparr>"

definition handleStreamingRequest ::
    "Env \<Rightarrow> ResponseWriter \<Rightarrow> CreateChatCompletionRequest \<Rightarrow> ResponseWriter" where
  "handleStreamingRequest env w req =
     (let lastUser = lastUserMessage (Messages req);
          echoMessage = generateEchoResponseForStreaming lastUser;
          w1 = HeaderSet w ''Content-Type'' ''text/event-stream'';
          w2 = HeaderSet w1 ''Cache-Control'' ''no-cache'';
          w3 = HeaderSet w2 ''Connection'' ''keep-alive'';
          w4 = HeaderSet w3 ''X-Accel-Buffering'' ''no''
      in if \<not> isFlusher w4 then http_Error w4 ''Streaming not supported'' 500
         else
           (let completionID = ''chatcmpl-'' @ uuidNew env;
                created = timeNow env
            in case writeSSEChunk env w4 (firstChunk completionID created req) of
                 (w5, err1) \<Rightarrow>
                   if err1 then w5
                   else
                     (case writeSSEChunk env (Flush w5)
                             (contentChunk completionID created req echoMessage) of
                        (w6, err2) \<Rightarrow>
                          if err2 then w6
                          else
                            (case writeSSEChunk env (Flush w6)
                                    (finalChunk completionID created req) of
                               (w7, err3) \<Rightarrow>
                                 if err3 then w7
                                 else
                                   Flush (fst (Fprintf (Flush w7)
                                     ''data: [DONE]\<newline>\<newline>'' []))))))"

text \<open>
  \<^verbatim>\<open>ServeHTTP\<close> either returns after writing the response itself, or ends in the call
  \<^verbatim>\<open>h.ogenServer.ServeHTTP(w, r)\<close> to the generated server, which is recorded with
  its two arguments.
\<close>

datatype Outcome = Returned ResponseWriter | OgenServeHTTP ResponseWriter Request

text \<open>
  The two intercepting blocks run one after the other; each either returns
  (\<^verbatim>\<open>Inl\<close>) or falls through with the writer and the request (\<^verbatim>\<open>Inr\<close>).
\<close>

definition ServeHTTP :: "Env \<Rightarrow> ResponseWriter \<Rightarrow> Request \<Rightarrow> Outcome" where
  "ServeHTTP env w r =
     (case
        (if Method r = ''POST'' \<and> Path r = ''/v1/chat/completions'' then
           (case readBodyAndCheckCreditError env w r of
              (w1, body, handled) \<Rightarrow>
                if handled then Inl w1
                else
                  (case jsonUnmarshalChat env body of
                     None \<Rightarrow> Inl (http_Error w1 ''Failed to parse request body'' 400)
                   | Some req \<Rightarrow>
                       if IsSet (Stream req) \<and> Value (Stream req)
                       then Inl (handleStreamingRequest env w1 req)
                       else Inr (w1, r\<lparr>Body := NopCloser (newBytesReader body)\<rparr>)))
         else Inr (w, r))
      of
        Inl w' \<Rightarrow> Returned w'
      | Inr (wa, ra) \<Rightarrow>
          (case
             (if Method ra = ''POST'' \<and> Path ra = ''/v1/completions'' then
                (case readBodyAndCheckCreditError env wa ra of
                   (w1, body, handled) \<Rightarrow>
                     if handled then Inl w1
                     else Inr (w1, ra\<lparr>Body := NopCloser (newBytesReader body)\<rparr>))
              else Inr (wa, ra))
           of
             Inl w' \<Rightarrow> Returned w'
           | Inr (wb, rb) \<Rightarrow> OgenServeHTTP wb rb))"

subsection \<open>Notions used in the statements\<close>

text \<open>A reader whose position lies within its data, as every reader made by
  \<^verbatim>\<open>newBytesReader\<close> and advanced by \<^verbatim>\<open>Read\<close> is.\<close>

definition inRange :: "bytesReader \<Rightarrow> bool" where
  "inRange r = (0 \<le> pos r \<and> pos r \<le> int (length (data r)))"

text \<open>
  The number of characters of a UTF-8 text, as opposed to its number of bytes: a
  character is one leading byte followed by continuation bytes, and the continuation
  bytes are those from 0x80 to 0xBF.
\<close>

definition charLength :: "string \<Rightarrow> nat" where
  "charLength s =
     length (filter (\<lambda>c. \<not> (0x80 \<le> (of_char c :: nat) \<and> (of_char c :: nat) \<le> 0xBF)) s)"

text \<open>The three chunks that \<^verbatim>\<open>handleStreamingRequest\<close> builds for a request, in the
  order in which it writes them.\<close>

definition streamChunks :: "Env \<Rightarrow> CreateChatCompletionRequest \<Rightarrow> ChatCompletionChunk list" where
  "streamChunks env req =
     (let completionID = ''chatcmpl-'' @ uuidNew env;
          created = timeNow env;
          echoMessage = generateEchoResponseForStreaming (lastUserMessage (Messages req))
      in [firstChunk completionID created req,
          contentChunk completionID created req echoMessage,
          finalChunk completionID created req])"

text \<open>A POST request whose body arrives without a read error.\<close>

definition requestOf :: "string \<Rightarrow> string \<Rightarrow> Request" where
  "requestOf path body = \<lparr>Method = ''POST'', Path = path, Body = NetBody body False\<rparr>"

text \<open>The response writer at the end of \<^verbatim>\<open>ServeHTTP\<close>, or at the call of the
  generated server.\<close>

definition outcomeWriter :: "Outcome \<Rightarrow> ResponseWriter" where
  "outcomeWriter out = (case out of Returned w \<Rightarrow> w | OgenServeHTTP w r \<Rightarrow> w)"

subsection \<open>Sample inputs\<close>

text \<open>
  Four request bodies: a streaming chat request, a request for the credit-error
  model, a body cut off in the middle, and a body with a model but with messages
  of the wrong shape.
\<close>

definition bodyStream :: string where
  \<open>bodyStream = ''{"model":"gpt-4","messages":[{"role":"user","content":"Hi"}],"stream":true}''\<close>

definition bodyCredit :: string where
  \<open>bodyCredit = ''{"model":"credit-error","messages":[{"role":"user","content":"x"}]}''\<close>

definition bodyCutOff :: string where
  \<open>bodyCutOff = ''{"model":"gpt-4","mess''\<close>

definition bodyBadMessages :: string where
  \<open>bodyBadMessages = ''{"model":"gpt-4","messages":7}''\<close>

definition requestStream :: CreateChatCompletionRequest where
  "requestStream =
     \<lparr>rq_Model = ''gpt-4'', Messages = [\<lparr>Role = ''user'', Content = ''Hi''\<rparr>],
      Stream = \<lparr>Value = True, IsSet = True\<rparr>\<rparr>"

text \<open>
  An environment for the sample bodies: the two decoders know these bodies only, the
  chunk encoder lists the role, the content and the finish reason of a chunk's
  choices, and the error encoder lists the type and the code.
\<close>

definition sampleEnv :: Env where
  "sampleEnv =
     \<lparr>jsonUnmarshalModel =
        (\<lambda>b. if b = bodyStream \<or> b = bodyBadMessages then Some \<lparr>mr_Model = ''gpt-4''\<rparr>
              else if b = bodyCredit then Some \<lparr>mr_Model = ''credit-error''\<rparr>
              else None),
      jsonUnmarshalChat = (\<lambda>b. if b = bodyStream then Some requestStream else None),
      jsonMarshalChunk =
        (\<lambda>c. Some (concat (map (\<lambda>ch. ''role='' @ d_Role (Delta ch) @ '' content=''
                 @ d_Content (Delta ch) @ '' finish_reason=''
                 @ (case FinishReason ch of None \<Rightarrow> ''null'' | Some f \<Rightarrow> f)) (Choices c)))),
      jsonMarshalError =
        (\<lambda>e. Some (''type='' @ ed_Type (Error e) @ '' code='' @ Code (Error e))),
      uuidNew = ''123e4567-e89b-42d3-a456-426614174000'',
      timeNow = 1700000000\<rparr>"

text \<open>A chat request whose only message is the letter e with an acute accent: one
  character, two bytes in UTF-8.\<close>

definition requestAccent :: CreateChatCompletionRequest where
  "requestAccent =
     \<lparr>rq_Model = ''gpt-4'', Messages = [\<lparr>Role = ''user'', Content = [CHR 0xC3, CHR 0xA9]\<rparr>],
      Stream = \<lparr>Value = False, IsSet = False\<rparr>\<rparr>"

section \<open>Properties\<close>

declare readAllFrom.simps [simp del]

declare lastUserLoop.simps [simp del]


lemma Sprintf_Echo: "Sprintf ''Echo: %s'' [s] = ''Echo: '' @ s"
  by simp

text \<open>
  C3. The echo synthesizer is a total function of its input alone: for every string
  \<open>s\<close>, the empty one included, both copies of it (handler.go and streaming.go)
  return \<open>"Echo: "\<close> followed by \<open>s\<close>; on the empty string the result is \<open>"Echo: "\<close>.
\<close>

theorem C3_echo_synthesizer:
  "generateEchoResponse s = ''Echo: '' @ s
   \<and> generateEchoResponseForStreaming s = ''Echo: '' @ s
   \<and> generateEchoResponse [] = ''Echo: ''
   \<and> generateEchoResponseForStreaming [] = ''Echo: ''"
  by (simp add: generateEchoResponse_def generateEchoResponseForStreaming_def)

subsection \<open>The last user message\<close>

lemma lastUserLoop_take:
  "n \<le> length ms \<Longrightarrow>
   lastUserLoop ms (int n - 1) =
     (let us = filter (\<lambda>m. Role m = ChatCompletionRequestMessageRoleUser) (take n ms)
      in if us = [] then [] else Content (last us))"
proof (induction n)
  case 0
  then show ?case by (simp add: lastUserLoop.simps)
next
  case (Suc n)
  then have n: "n < length ms" by simp
  have unf: "lastUserLoop ms (int (Suc n) - 1) =
      (if Role (ms ! n) = ChatCompletionRequestMessageRoleUser then Content (ms ! n)
       else lastUserLoop ms (int n - 1))"
    by (subst lastUserLoop.simps) simp
  show ?case
  proof (cases "Role (ms ! n) = ChatCompletionRequestMessageRoleUser")
    case True
    then show ?thesis using n unf
      by (simp add: take_Suc_conv_app_nth)
  next
    case False
    then show ?thesis using n unf Suc.IH
      by (simp add: take_Suc_conv_app_nth)
  qed
qed

lemma lastUserMessage_filter:
  "lastUserMessage ms =
     (let us = filter (\<lambda>m. Role m = ChatCompletionRequestMessageRoleUser) ms
      in if us = [] then [] else Content (last us))"
  using lastUserLoop_take [of "length ms" ms] by (simp add: lastUserMessage_def)

lemma lastUserMessage_nearest:
  assumes "Role m = ChatCompletionRequestMessageRoleUser"
    and "\<forall>x \<in> set post. Role x \<noteq> ChatCompletionRequestMessageRoleUser"
  shows "lastUserMessage (pre @ m # post) = Content m"
proof -
  have "filter (\<lambda>m. Role m = ChatCompletionRequestMessageRoleUser) post = []"
    using assms(2) by (simp add: filter_empty_conv)
  then show ?thesis using assms(1)
    by (simp add: lastUserMessage_filter)
qed

lemma lastUserMessage_none:
  assumes "\<forall>x \<in> set ms. Role x \<noteq> ChatCompletionRequestMessageRoleUser"
  shows "lastUserMessage ms = []"
proof -
  have "filter (\<lambda>m. Role m = ChatCompletionRequestMessageRoleUser) ms = []"
    using assms by (simp add: filter_empty_conv)
  then show ?thesis by (simp add: lastUserMessage_filter)
qed

lemma chatContent:
  "\<exists>resp. CreateChatCompletion env req = Inr resp
     \<and> map (\<lambda>c. rm_Content (cc_Message c)) (cr_Choices resp)
         = [\<lparr>ns_Value = ''Echo: '' @ lastUserMessage (Messages req), ns_Null = False\<rparr>]"
  by (simp add: CreateChatCompletion_def Let_def generateEchoResponse_def NewNilString_def)

text \<open>
  C4. The last user message is the content of the user-role message nearest to the
  end of the list: if a message \<open>m\<close> of role user is followed only by messages of
  other roles, the scan returns the content of \<open>m\<close>, whatever precedes it. If
  no message has the role user (in particular if the list is empty), the scan
  returns the empty string and the content of the chat completion is \<open>"Echo: "\<close>.
\<close>

theorem C4_last_user_message:
  "(Role m = ChatCompletionRequestMessageRoleUser
      \<and> (\<forall>x \<in> set post. Role x \<noteq> ChatCompletionRequestMessageRoleUser)
      \<longrightarrow> lastUserMessage (pre @ m # post) = Content m)
   \<and> ((\<forall>x \<in> set (Messages req). Role x \<noteq> ChatCompletionRequestMessageRoleUser)
      \<longrightarrow> lastUserMessage (Messages req) = []
        \<and> (\<exists>resp. CreateChatCompletion env req = Inr resp
              \<and> map (\<lambda>c. rm_Content (cc_Message c)) (cr_Choices resp)
                   = [\<lparr>ns_Value = ''Echo: '', ns_Null = False\<rparr>]))"
proof (intro conjI impI)
  assume "Role m = ChatCompletionRequestMessageRoleUser
      \<and> (\<forall>x \<in> set post. Role x \<noteq> ChatCompletionRequestMessageRoleUser)"
  then show "lastUserMessage (pre @ m # post) = Content m"
    by (simp add: lastUserMessage_nearest)
next
  assume none: "\<forall>x \<in> set (Messages req). Role x \<noteq> ChatCompletionRequestMessageRoleUser"
  then show "lastUserMessage (Messages req) = []" by (rule lastUserMessage_none)
  then show "\<exists>resp. CreateChatCompletion env req = Inr resp
              \<and> map (\<lambda>c. rm_Content (cc_Message c)) (cr_Choices resp)
                   = [\<lparr>ns_Value = ''Echo: '', ns_Null = False\<rparr>]"
    using chatContent [of env req] by simp
qed

text \<open>An instance of C4: a later user message wins over an earlier one, and a list
  without a user message gives the empty string.\<close>

theorem C4_last_user_message_witness:
  "lastUserMessage
      ([\<lparr>Role = ''user'', Content = ''Hi''\<rparr>] @ \<lparr>Role = ''user'', Content = ''Bye''\<rparr>
         # [\<lparr>Role = ''assistant'', Content = ''Hello''\<rparr>]) = ''Bye''
   \<and> lastUserMessage [\<lparr>Role = ''system'', Content = ''Be brief''\<rparr>] = []
   \<and> (\<exists>resp. CreateChatCompletion sampleEnv
          \<lparr>rq_Model = ''gpt-4'', Messages = [\<lparr>Role = ''system'', Content = ''Be brief''\<rparr>],
           Stream = \<lparr>Value = False, IsSet = False\<rparr>\<rparr> = Inr resp
        \<and> map (\<lambda>c. rm_Content (cc_Message c)) (cr_Choices resp)
             = [\<lparr>ns_Value = ''Echo: '', ns_Null = False\<rparr>])"
  using C4_last_user_message
    [of "\<lparr>Role = ''user'', Content = ''Bye''\<rparr>" "[\<lparr>Role = ''assistant'', Content = ''Hello''\<rparr>]"
        "[\<lparr>Role = ''user'', Content = ''Hi''\<rparr>]"
        "\<lparr>rq_Model = ''gpt-4'', Messages = [\<lparr>Role = ''system'', Content = ''Be brief''\<rparr>],
           Stream = \<lparr>Value = False, IsSet = False\<rparr>\<rparr>" sampleEnv]
  by (simp add: ChatCompletionRequestMessageRoleUser_def)

text \<open>The example of the specification, by evaluation of the loop.\<close>

lemma lastUserMessage_example:
  "lastUserMessage
     [\<lparr>Role = ''user'', Content = ''Hi''\<rparr>, \<lparr>Role = ''assistant'', Content = ''Hello''\<rparr>,
      \<lparr>Role = ''user'', Content = ''Bye''\<rparr>] = ''Bye''"
  by (simp add: lastUserMessage_def lastUserLoop.simps ChatCompletionRequestMessageRoleUser_def)

subsection \<open>The body re-reader\<close>

lemma Read_eof:
  "pos r \<ge> int (length (data r)) \<Longrightarrow> Read r p = Inr (0, Some EOF, p, r)"
  by (simp add: Read_def)

lemma Read_ok:
  assumes "0 \<le> pos r" "pos r < int (length (data r))"
    and "n = min (length p) (length (data r) - nat (pos r))"
  shows "\<exists>p'. Read r p = Inr (n, None, p', r\<lparr>pos := pos r + int n\<rparr>)
           \<and> take n p' = take n (drop (nat (pos r)) (data r))"
  using assms by (simp add: Read_def Let_def)

lemma Read_total: "inRange r \<Longrightarrow> \<exists>res. Read r p = Inr res"
  by (simp add: Read_def Let_def inRange_def)

lemma inRange_step:
  assumes "0 \<le> pos r" "pos r < int (length (data r))"
    and "n = min (length p) (length (data r) - nat (pos r))"
  shows "inRange (r\<lparr>pos := pos r + int n\<rparr>)"
    and "drop (nat (pos (r\<lparr>pos := pos r + int n\<rparr>))) (data (r\<lparr>pos := pos r + int n\<rparr>))
           = drop n (drop (nat (pos r)) (data r))"
    and "length (data (r\<lparr>pos := pos r + int n\<rparr>)) - nat (pos (r\<lparr>pos := pos r + int n\<rparr>))
           = length (data r) - nat (pos r) - n"
  using assms by (auto simp: inRange_def nat_add_distrib add.commute)

lemma take_min_append:
  assumes "n = min k (length xs)"
  shows "take n xs @ take m (drop n xs) = take (k + m) xs"
proof (cases "k \<le> length xs")
  case True
  then have "n = k" using assms by simp
  then show ?thesis by (simp add: take_add)
next
  case False
  then have "n = length xs" using assms by simp
  then show ?thesis using False by simp
qed

lemma readEach_prefix:
  "inRange r \<Longrightarrow>
   \<exists>eof r'. readEach r ps =
       Inr (take (sum_list (map length ps)) (drop (nat (pos r)) (data r)), eof, r')
     \<and> inRange r'"
proof (induction ps arbitrary: r)
  case Nil
  then show ?case by auto
next
  case (Cons p ps)
  show ?case
  proof (cases "pos r \<ge> int (length (data r))")
    case True
    then show ?thesis using Cons.prems by (auto simp: Read_eof)
  next
    case False
    with Cons.prems have lo: "0 \<le> pos r" and hi: "pos r < int (length (data r))"
      by (simp_all add: inRange_def)
    define n where "n = min (length p) (length (data r) - nat (pos r))"
    define r1 where "r1 = r\<lparr>pos := pos r + int n\<rparr>"
    define src where "src = drop (nat (pos r)) (data r)"
    obtain p1 where rd: "Read r p = Inr (n, None, p1, r1)" and tk: "take n p1 = take n src"
      using Read_ok [OF lo hi n_def] unfolding r1_def src_def by blast
    have r1: "inRange r1" and d1: "drop (nat (pos r1)) (data r1) = drop n src"
      using inRange_step [OF lo hi n_def] unfolding r1_def src_def by blast+
    from Cons.IH [OF r1] obtain eof r' where
      ih: "readEach r1 ps = Inr (take (sum_list (map length ps)) (drop n src), eof, r')"
      and r': "inRange r'" unfolding d1 by blast
    have n: "n = min (length p) (length src)" by (simp add: n_def src_def)
    have "readEach r (p # ps) = Inr (take n src @ take (sum_list (map length ps)) (drop n src), eof, r')"
      by (simp add: rd ih tk)
    then have "readEach r (p # ps) = Inr (take (length p + sum_list (map length ps)) src, eof, r')"
      by (simp only: take_min_append [OF n])
    then show ?thesis using r' by (simp add: src_def)
  qed
qed

lemma readEach_exhaust:
  "inRange r \<Longrightarrow> length (data r) - nat (pos r) \<le> sum_list (map length ps) \<Longrightarrow>
   readEach r (ps @ [q]) =
     Inr (drop (nat (pos r)) (data r), True, r\<lparr>pos := int (length (data r))\<rparr>)"
proof (induction ps arbitrary: r)
  case Nil
  then have "pos r = int (length (data r))" by (auto simp: inRange_def)
  then show ?case by (simp add: Read_eof)
next
  case (Cons p ps)
  show ?case
  proof (cases "pos r \<ge> int (length (data r))")
    case True
    with Cons.prems have "pos r = int (length (data r))" by (simp add: inRange_def)
    then show ?thesis by (simp add: Read_eof)
  next
    case False
    with Cons.prems have lo: "0 \<le> pos r" and hi: "pos r < int (length (data r))"
      by (simp_all add: inRange_def)
    define n where "n = min (length p) (length (data r) - nat (pos r))"
    define r1 where "r1 = r\<lparr>pos := pos r + int n\<rparr>"
    define src where "src = drop (nat (pos r)) (data r)"
    obtain p1 where rd: "Read r p = Inr (n, None, p1, r1)" and tk: "take n p1 = take n src"
      using Read_ok [OF lo hi n_def] unfolding r1_def src_def by blast
    have r1: "inRange r1" and d1: "drop (nat (pos r1)) (data r1) = drop n src"
      and l1: "length (data r1) - nat (pos r1) = length (data r) - nat (pos r) - n"
      using inRange_step [OF lo hi n_def] unfolding r1_def src_def by blast+
    have le: "length (data r1) - nat (pos r1) \<le> sum_list (map length ps)"
      using Cons.prems(2) unfolding l1 by (simp add: n_def)
    have fin: "r1\<lparr>pos := int (length (data r1))\<rparr> = r\<lparr>pos := int (length (data r))\<rparr>"
      by (simp add: r1_def)
    have ih: "readEach r1 (ps @ [q]) = Inr (drop n src, True, r\<lparr>pos := int (length (data r))\<rparr>)"
      using Cons.IH [OF r1 le] unfolding d1 fin .
    have "readEach r ((p # ps) @ [q]) = Inr (take n src @ drop n src, True, r\<lparr>pos := int (length (data r))\<rparr>)"
      by (simp add: rd ih tk)
    then show ?thesis by (simp only: append_take_drop_id src_def)
  qed
qed

lemma readAllFrom_drop:
  "inRange r \<Longrightarrow> readAllFrom r acc = Some (acc @ drop (nat (pos r)) (data r))"
proof (induction r acc rule: readAllFrom.induct)
  case (1 r acc)
  show ?case
  proof (cases "pos r \<ge> int (length (data r))")
    case True
    then show ?thesis
      by (subst readAllFrom.simps) (simp add: Read_eof)
  next
    case False
    with "1.prems" have lo: "0 \<le> pos r" and hi: "pos r < int (length (data r))"
      by (simp_all add: inRange_def)
    define p where "p = replicate 512 (CHR 0x00)"
    define n where "n = min (length p) (length (data r) - nat (pos r))"
    define r1 where "r1 = r\<lparr>pos := pos r + int n\<rparr>"
    define src where "src = drop (nat (pos r)) (data r)"
    obtain p1 where rd: "Read r p = Inr (n, None, p1, r1)" and tk: "take n p1 = take n src"
      using Read_ok [OF lo hi n_def] unfolding r1_def src_def by blast
    have r1: "inRange r1" and d1: "drop (nat (pos r1)) (data r1) = drop n src"
      using inRange_step [OF lo hi n_def] unfolding r1_def src_def by blast+
    have ih: "readAllFrom r1 (acc @ take n p1) = Some ((acc @ take n p1) @ drop (nat (pos r1)) (data r1))"
      using "1.IH" [OF rd [unfolded p_def] refl refl refl refl r1] .
    have "readAllFrom r acc = readAllFrom r1 (acc @ take n p1)"
      by (subst readAllFrom.simps) (simp add: rd [unfolded p_def])
    then show ?thesis using ih
      by (simp only: d1 tk append_assoc append_take_drop_id src_def)
  qed
qed

lemma inRange_new: "inRange (newBytesReader b)"
  by (simp add: inRange_def newBytesReader_def)


text \<open>
  C9. The body re-reader round-trips. For every byte sequence \<open>b\<close> and every
  sequence of buffers \<open>ps\<close>, of any sizes, zero included: no \<^verbatim>\<open>Read\<close> on the reader
  made by \<^verbatim>\<open>newBytesReader b\<close> panics, neither those of the sequence nor one more
  with any buffer \<open>q\<close>, and the bytes delivered are the first bytes of \<open>b\<close>, as
  many as the buffers hold. Once the buffers hold at least as many bytes as \<open>b\<close>
  has, the bytes delivered are exactly \<open>b\<close>, the next \<^verbatim>\<open>Read\<close> reports \<^verbatim>\<open>io.EOF\<close>,
  and the position is the length of \<open>b\<close>. A \<^verbatim>\<open>Read\<close> into an empty buffer returns
  0 and leaves the reader as it was. \<^verbatim>\<open>io.ReadAll\<close> on the reader returns \<open>b\<close>.
\<close>

theorem C9_bytesReader_roundtrip:
  "(\<exists>eof r'. readEach (newBytesReader b) ps = Inr (take (sum_list (map length ps)) b, eof, r')
       \<and> (\<exists>res. Read r' q = Inr res))
   \<and> (length b \<le> sum_list (map length ps) \<longrightarrow>
        readEach (newBytesReader b) (ps @ [q]) = Inr (b, True, \<lparr>data = b, pos = int (length b)\<rparr>))
   \<and> Read (newBytesReader b) [] =
        Inr (0, if b = [] then Some EOF else None, [], newBytesReader b)
   \<and> readAllFrom (newBytesReader b) [] = Some b"
proof (intro conjI impI)
  obtain eof r' where
    e: "readEach (newBytesReader b) ps =
          Inr (take (sum_list (map length ps))
                 (drop (nat (pos (newBytesReader b))) (data (newBytesReader b))), eof, r')"
    and r': "inRange r'"
    using readEach_prefix [OF inRange_new, of b ps] by blast
  have "readEach (newBytesReader b) ps = Inr (take (sum_list (map length ps)) b, eof, r')"
    using e by (simp add: newBytesReader_def)
  then show "\<exists>eof r'. readEach (newBytesReader b) ps = Inr (take (sum_list (map length ps)) b, eof, r')
       \<and> (\<exists>res. Read r' q = Inr res)"
    using Read_total [OF r', of q] by blast
next
  assume "length b \<le> sum_list (map length ps)"
  then show "readEach (newBytesReader b) (ps @ [q]) = Inr (b, True, \<lparr>data = b, pos = int (length b)\<rparr>)"
    using readEach_exhaust [OF inRange_new, of b ps q] by (simp add: newBytesReader_def)
next
  show "Read (newBytesReader b) [] =
        Inr (0, if b = [] then Some EOF else None, [], newBytesReader b)"
    by (simp add: Read_def newBytesReader_def)
next
  show "readAllFrom (newBytesReader b) [] = Some b"
    using readAllFrom_drop [OF inRange_new, of b "[]"] by (simp add: newBytesReader_def)
qed

text \<open>An instance of C9: seven bytes read through buffers of 2, 0, 4 and 1 bytes,
  then a further read.\<close>

theorem C9_bytesReader_roundtrip_witness:
  "readEach (newBytesReader ''abcdefg'') [''01'', [], ''2345'', ''6'', ''789''] =
     Inr (''abcdefg'', True, \<lparr>data = ''abcdefg'', pos = 7\<rparr>)
   \<and> readAllFrom (newBytesReader ''abcdefg'') [] = Some ''abcdefg''"
  using C9_bytesReader_roundtrip [of "''abcdefg''" "[''01'', [], ''2345'', ''6'']" "''789''"]
  by simp

text \<open>What the generated server reads from a restored body.\<close>

lemma ReadAll_replay: "ReadAll (NopCloser (newBytesReader b)) = Some b"
  using readAllFrom_drop [OF inRange_new, of b "[]"] by (simp add: newBytesReader_def)

subsection \<open>Usage counts\<close>

lemma charLength_ascii:
  "\<forall>c \<in> set s. (of_char c :: nat) < 128 \<Longrightarrow> charLength s = length s"
proof -
  assume a: "\<forall>c \<in> set s. (of_char c :: nat) < 128"
  have "filter (\<lambda>c. \<not> (0x80 \<le> (of_char c :: nat) \<and> (of_char c :: nat) \<le> 0xBF)) s = s"
    using a by (intro filter_True) auto
  then show ?thesis by (simp add: charLength_def)
qed

lemma chatUsage:
  "\<exists>resp. CreateChatCompletion env req = Inr resp
     \<and> cr_Usage resp =
         \<lparr>Value =
            \<lparr>PromptTokens = int (length (lastUserMessage (Messages req))),
             CompletionTokens = int (length (''Echo: '' @ lastUserMessage (Messages req))),
             TotalTokens = int (length (lastUserMessage (Messages req)))
               + int (length (''Echo: '' @ lastUserMessage (Messages req)))\<rparr>,
          IsSet = True\<rparr>"
  by (simp add: CreateChatCompletion_def Let_def generateEchoResponse_def NewOpt_def)

text \<open>
  C5 (as amended). For every chat request handled by \<^verbatim>\<open>CreateChatCompletion\<close> the
  usage block is present, \<open>total_tokens = prompt_tokens + completion_tokens\<close>,
  \<open>prompt_tokens\<close> is the length in bytes of the last user message and
  \<open>completion_tokens\<close> the length in bytes of the echoed reply. When the last user
  message is ASCII text these are its numbers of characters too.
\<close>

theorem C5_usage_counts:
  "\<exists>resp. CreateChatCompletion env req = Inr resp
     \<and> IsSet (cr_Usage resp)
     \<and> TotalTokens (Value (cr_Usage resp))
         = PromptTokens (Value (cr_Usage resp)) + CompletionTokens (Value (cr_Usage resp))
     \<and> PromptTokens (Value (cr_Usage resp)) = int (length (lastUserMessage (Messages req)))
     \<and> CompletionTokens (Value (cr_Usage resp))
         = int (length (''Echo: '' @ lastUserMessage (Messages req)))
     \<and> ((\<forall>c \<in> set (lastUserMessage (Messages req)). (of_char c :: nat) < 128) \<longrightarrow>
          PromptTokens (Value (cr_Usage resp)) = int (charLength (lastUserMessage (Messages req)))
          \<and> CompletionTokens (Value (cr_Usage resp))
              = int (charLength (''Echo: '' @ lastUserMessage (Messages req))))"
proof -
  obtain resp where r: "CreateChatCompletion env req = Inr resp"
    and u: "cr_Usage resp =
         \<lparr>Value =
            \<lparr>PromptTokens = int (length (lastUserMessage (Messages req))),
             CompletionTokens = int (length (''Echo: '' @ lastUserMessage (Messages req))),
             TotalTokens = int (length (lastUserMessage (Messages req)))
               + int (length (''Echo: '' @ lastUserMessage (Messages req)))\<rparr>,
          IsSet = True\<rparr>"
    using chatUsage [of env req] by blast
  have asc: "(\<forall>c \<in> set (lastUserMessage (Messages req)). (of_char c :: nat) < 128) \<longrightarrow>
      charLength (lastUserMessage (Messages req)) = length (lastUserMessage (Messages req))
      \<and> charLength (''Echo: '' @ lastUserMessage (Messages req))
          = length (''Echo: '' @ lastUserMessage (Messages req))"
  proof
    assume a: "\<forall>c \<in> set (lastUserMessage (Messages req)). (of_char c :: nat) < 128"
    then have "\<forall>c \<in> set (''Echo: '' @ lastUserMessage (Messages req)). (of_char c :: nat) < 128"
      by auto
    then show "charLength (lastUserMessage (Messages req)) = length (lastUserMessage (Messages req))
      \<and> charLength (''Echo: '' @ lastUserMessage (Messages req))
          = length (''Echo: '' @ lastUserMessage (Messages req))"
      using a charLength_ascii by blast
  qed
  show ?thesis
    using r asc by (simp add: u)
qed

lemma lastUser_sample: "lastUserMessage (Messages requestStream) = ''Hi''"
  by (simp add: requestStream_def lastUserMessage_def lastUserLoop.simps
      ChatCompletionRequestMessageRoleUser_def)

text \<open>An instance of C5 on the sample request, whose last user message is ASCII.\<close>

theorem C5_usage_counts_witness:
  "\<exists>resp. CreateChatCompletion sampleEnv requestStream = Inr resp
     \<and> IsSet (cr_Usage resp)
     \<and> TotalTokens (Value (cr_Usage resp)) = 10
     \<and> PromptTokens (Value (cr_Usage resp)) = 2
     \<and> CompletionTokens (Value (cr_Usage resp)) = 8
     \<and> charLength ''Hi'' = 2 \<and> charLength ''Echo: Hi'' = 8"
  using C5_usage_counts [of sampleEnv requestStream]
  by (auto simp: lastUser_sample)

lemma lastUser_accent: "lastUserMessage (Messages requestAccent) = [CHR 0xC3, CHR 0xA9]"
  by (simp add: requestAccent_def lastUserMessage_def lastUserLoop.simps
      ChatCompletionRequestMessageRoleUser_def)

text \<open>
  C5 as stated fails beyond ASCII: for a message of one accented character
  \<open>prompt_tokens\<close> is 2, the number of bytes, and not 1, the number of characters.
\<close>

theorem C5_character_length_counterexample:
  "PromptTokens (Value (cr_Usage (projr (CreateChatCompletion sampleEnv requestAccent)))) = 2
   \<and> int (charLength (lastUserMessage (Messages requestAccent))) = 1
   \<and> PromptTokens (Value (cr_Usage (projr (CreateChatCompletion sampleEnv requestAccent))))
       \<noteq> int (charLength (lastUserMessage (Messages requestAccent)))"
  by (simp add: CreateChatCompletion_def Let_def NewOpt_def lastUser_accent charLength_def)

subsection \<open>Model retrieval and plain completions\<close>

text \<open>
  C7. \<^verbatim>\<open>RetrieveModel\<close> succeeds for every model identifier, listed or not: it
  returns a descriptor whose id is the identifier asked for and a nil error, which
  the generated server answers with status 200.
\<close>

theorem C7_retrieveModel_succeeds:
  "\<exists>m. RetrieveModel env \<lparr>pm_Model = ident\<rparr> = Inr m
     \<and> m_ID m = ident
     \<and> encodeRetrieveModel (RetrieveModel env \<lparr>pm_Model = ident\<rparr>) = (200, Some m)"
  by (simp add: RetrieveModel_def encodeRetrieveModel_def)

text \<open>An identifier that \<^verbatim>\<open>ListModels\<close> does not list is retrieved all the same.\<close>

lemma RetrieveModel_unlisted:
  "\<exists>l m. ListModels t1 t2 t3 = Inr l
     \<and> ''anything-at-all'' \<notin> set (map m_ID (lm_Data l))
     \<and> RetrieveModel env \<lparr>pm_Model = ''anything-at-all''\<rparr> = Inr m
     \<and> m_ID m = ''anything-at-all''"
  by (simp add: ListModels_def RetrieveModel_def)

text \<open>
  C8. The prompt of a completions request resolves to the string itself for the
  string variant, to the first element for the list variant, and to the empty
  string for an empty list and for a prompt that is neither variant. The response
  has one choice, whose text is \<open>"Echo: "\<close> followed by the resolved prompt and
  whose finish reason is \<open>"stop"\<close>.
\<close>

theorem C8_completion_prompt:
  "resolvePrompt pr =
     (case Type pr of
        StringCreateCompletionRequestPrompt \<Rightarrow> String pr
      | StringArrayCreateCompletionRequestPrompt \<Rightarrow>
          (case StringArray pr of [] \<Rightarrow> [] | x # xs \<Rightarrow> x)
      | NoPromptType \<Rightarrow> [])
   \<and> (\<exists>resp. CreateCompletion env req = Inr resp
        \<and> tr_Choices resp =
            [\<lparr>tc_Index = 0, tc_Text = ''Echo: '' @ resolvePrompt (Prompt req),
              tc_FinishReason = ''stop''\<rparr>])"
  by (cases "Type pr"; cases "StringArray pr")
     (simp_all add: resolvePrompt_def IsString_def IsStringArray_def GetString_def
        GetStringArray_def CreateCompletion_def Let_def generateEchoResponse_def
        CompletionChoiceFinishReasonStop_def)

text \<open>A list prompt of two elements: the first one is echoed.\<close>

lemma CreateCompletion_example:
  "\<exists>resp. CreateCompletion sampleEnv
       \<lparr>cq_Model = ''gpt-4'',
        Prompt = \<lparr>Type = StringArrayCreateCompletionRequestPrompt, String = [],
                  StringArray = [''one'', ''two'']\<rparr>\<rparr> = Inr resp
     \<and> map tc_Text (tr_Choices resp) = [''Echo: one'']"
  by (simp add: CreateCompletion_def Let_def generateEchoResponse_def resolvePrompt_def
      IsString_def IsStringArray_def GetStringArray_def)

subsection \<open>The interceptor\<close>

lemma Sprintf_frame: "Sprintf ''data: %s\<newline>\<newline>'' [d] = ''data: '' @ d @ ''\<newline>\<newline>''"
  by simp

lemma Sprintf_done: "Sprintf ''data: [DONE]\<newline>\<newline>'' [] = ''data: [DONE]\<newline>\<newline>''"
  by simp

lemma writesOf_append: "writesOf (xs @ ys) = writesOf xs @ writesOf ys"
  by (induction xs rule: writesOf.induct) simp_all

lemma status_http_Error: "status (http_Error (newResponse fl fails) msg code) = Some code"
  by (simp add: http_Error_def newResponse_def HeaderDel_def HeaderSet_def WriteHeader_def
      Write_def Let_def)

lemma writes_http_Error:
  "writes (http_Error (newResponse fl fails) msg code) = [msg @ ''\<newline>'']"
  by (simp add: http_Error_def newResponse_def HeaderDel_def HeaderSet_def WriteHeader_def
      Write_def Let_def writes_def)

lemma status_writeCreditError: "status (writeCreditError env (newResponse fl fails)) = Some 402"
  by (simp add: writeCreditError_def newResponse_def HeaderSet_def WriteHeader_def Write_def
      Let_def split: option.splits)

lemma header_writeCreditError:
  "header (writeCreditError env (newResponse fl fails)) ''Content-Type'' = Some ''application/json''"
  by (simp add: writeCreditError_def newResponse_def HeaderSet_def WriteHeader_def Write_def
      Let_def split: option.splits)

lemma writes_writeCreditError:
  "writes (writeCreditError env (newResponse fl fails)) =
     (case jsonMarshalError env creditErrorResp of None \<Rightarrow> [] | Some d \<Rightarrow> [d @ ''\<newline>''])"
  by (simp add: writeCreditError_def newResponse_def HeaderSet_def WriteHeader_def Write_def
      Let_def writes_def split: option.splits)

lemma ServeHTTP_credit:
  assumes "Method r = ''POST''"
    and "Path r = ''/v1/chat/completions'' \<or> Path r = ''/v1/completions''"
    and "ReadAll (Body r) = Some body"
    and "jsonUnmarshalModel env body = Some mr"
    and "mr_Model mr = ''credit-error''"
  shows "ServeHTTP env w r = Returned (writeCreditError env w)"
  using assms
  by (auto simp: ServeHTTP_def readBodyAndCheckCreditError_def CreditErrorModelName_def)

lemma writeCreditError_indep:
  "writeCreditError (env\<lparr>jsonUnmarshalChat := f, jsonMarshalChunk := g\<rparr>) w = writeCreditError env w"
  by (simp add: writeCreditError_def)

text \<open>
  C2. A POST to the chat-completions or to the completions endpoint whose body is
  read and decodes with the model \<open>"credit-error"\<close> is answered by
  \<^verbatim>\<open>writeCreditError\<close> alone: status 402, content type JSON, and one write of the
  encoding of the fixed payload whose type and code are both
  \<open>"insufficient_quota"\<close>. \<^verbatim>\<open>ServeHTTP\<close> returns without calling the generated
  server, and its result does not depend on the decoder of chat requests nor on the
  encoder of chunks: neither the full parse nor the streaming responder runs.
\<close>

theorem C2_credit_error:
  assumes "Method r = ''POST''"
    and "Path r = ''/v1/chat/completions'' \<or> Path r = ''/v1/completions''"
    and "ReadAll (Body r) = Some body"
    and "jsonUnmarshalModel env body = Some mr"
    and "mr_Model mr = ''credit-error''"
  shows "ServeHTTP env (newResponse fl fails) r = Returned (writeCreditError env (newResponse fl fails))
    \<and> status (writeCreditError env (newResponse fl fails)) = Some 402
    \<and> header (writeCreditError env (newResponse fl fails)) ''Content-Type'' = Some ''application/json''
    \<and> writes (writeCreditError env (newResponse fl fails)) =
        (case jsonMarshalError env creditErrorResp of None \<Rightarrow> [] | Some d \<Rightarrow> [d @ ''\<newline>''])
    \<and> ed_Type (Error creditErrorResp) = ''insufficient_quota''
    \<and> Code (Error creditErrorResp) = ''insufficient_quota''
    \<and> ServeHTTP (env\<lparr>jsonUnmarshalChat := f, jsonMarshalChunk := g\<rparr>) (newResponse fl fails) r
        = ServeHTTP env (newResponse fl fails) r"
proof -
  have a: "ServeHTTP env (newResponse fl fails) r = Returned (writeCreditError env (newResponse fl fails))"
    using assms by (rule ServeHTTP_credit)
  have "jsonUnmarshalModel (env\<lparr>jsonUnmarshalChat := f, jsonMarshalChunk := g\<rparr>) body = Some mr"
    using assms(4) by simp
  then have b: "ServeHTTP (env\<lparr>jsonUnmarshalChat := f, jsonMarshalChunk := g\<rparr>) (newResponse fl fails) r
      = Returned (writeCreditError (env\<lparr>jsonUnmarshalChat := f, jsonMarshalChunk := g\<rparr>) (newResponse fl fails))"
    using assms(1,2,3,5) ServeHTTP_credit by blast
  show ?thesis
    unfolding a b writeCreditError_indep
    by (simp add: status_writeCreditError header_writeCreditError writes_writeCreditError
        creditErrorResp_def)
qed

text \<open>An instance of C2 on both endpoints.\<close>

theorem C2_credit_error_witness:
  "ServeHTTP sampleEnv (newResponse True (\<lambda>k. False)) (requestOf ''/v1/completions'' bodyCredit)
     = Returned (writeCreditError sampleEnv (newResponse True (\<lambda>k. False)))
   \<and> ServeHTTP sampleEnv (newResponse True (\<lambda>k. False)) (requestOf ''/v1/chat/completions'' bodyCredit)
     = Returned (writeCreditError sampleEnv (newResponse True (\<lambda>k. False)))
   \<and> status (writeCreditError sampleEnv (newResponse True (\<lambda>k. False))) = Some 402
   \<and> writes (writeCreditError sampleEnv (newResponse True (\<lambda>k. False)))
       = [''type=insufficient_quota code=insufficient_quota\<newline>'']"
  using C2_credit_error [of "requestOf ''/v1/completions'' bodyCredit" bodyCredit sampleEnv
      "\<lparr>mr_Model = ''credit-error''\<rparr>" True "\<lambda>k. False"]
    C2_credit_error [of "requestOf ''/v1/chat/completions'' bodyCredit" bodyCredit sampleEnv
      "\<lparr>mr_Model = ''credit-error''\<rparr>" True "\<lambda>k. False"]
  by (simp add: requestOf_def sampleEnv_def bodyCredit_def bodyStream_def bodyBadMessages_def
      creditErrorResp_def)

text \<open>
  C6. For a POST to the chat-completions or to the completions endpoint
  \<^verbatim>\<open>ServeHTTP\<close> returns without calling the generated server, having answered with
  status 400, in each of these cases: reading the body fails; the body does not
  decode at the model-sniffing stage; on the chat endpoint, the body passes the
  model-sniffing stage (it decodes, with a model other than the credit-error one)
  and does not decode as a chat request.
\<close>

theorem C6_bad_request:
  assumes "Method r = ''POST''"
    and "Path r = ''/v1/chat/completions'' \<or> Path r = ''/v1/completions''"
  shows
   "(ReadAll (Body r) = None \<longrightarrow>
       ServeHTTP env (newResponse fl fails) r =
         Returned (http_Error (newResponse fl fails) ''Failed to read request body'' 400))
    \<and> (ReadAll (Body r) = Some body \<and> jsonUnmarshalModel env body = None \<longrightarrow>
       ServeHTTP env (newResponse fl fails) r =
         Returned (http_Error (newResponse fl fails) ''Failed to parse request body'' 400))
    \<and> (Path r = ''/v1/chat/completions'' \<and> ReadAll (Body r) = Some body
          \<and> jsonUnmarshalModel env body = Some mr \<and> mr_Model mr \<noteq> CreditErrorModelName
          \<and> jsonUnmarshalChat env body = None \<longrightarrow>
       ServeHTTP env (newResponse fl fails) r =
         Returned (http_Error (newResponse fl fails) ''Failed to parse request body'' 400))
    \<and> status (http_Error (newResponse fl fails) ''Failed to read request body'' 400) = Some 400
    \<and> status (http_Error (newResponse fl fails) ''Failed to parse request body'' 400) = Some 400"
  using assms
  by (auto simp: ServeHTTP_def readBodyAndCheckCreditError_def status_http_Error)

text \<open>An instance of C6 for each of the three cases.\<close>

theorem C6_bad_request_witness:
  "ServeHTTP sampleEnv (newResponse True (\<lambda>k. False))
      \<lparr>Method = ''POST'', Path = ''/v1/completions'', Body = NetBody bodyCutOff True\<rparr>
     = Returned (http_Error (newResponse True (\<lambda>k. False)) ''Failed to read request body'' 400)
   \<and> ServeHTTP sampleEnv (newResponse True (\<lambda>k. False)) (requestOf ''/v1/completions'' bodyCutOff)
     = Returned (http_Error (newResponse True (\<lambda>k. False)) ''Failed to parse request body'' 400)
   \<and> ServeHTTP sampleEnv (newResponse True (\<lambda>k. False)) (requestOf ''/v1/chat/completions'' bodyBadMessages)
     = Returned (http_Error (newResponse True (\<lambda>k. False)) ''Failed to parse request body'' 400)
   \<and> status (http_Error (newResponse True (\<lambda>k. False)) ''Failed to parse request body'' 400) = Some 400
   \<and> writes (http_Error (newResponse True (\<lambda>k. False)) ''Failed to parse request body'' 400)
       = [''Failed to parse request body\<newline>'']"
  using
    C6_bad_request [of "\<lparr>Method = ''POST'', Path = ''/v1/completions'', Body = NetBody bodyCutOff True\<rparr>"
      sampleEnv True "\<lambda>k. False" bodyCutOff "\<lparr>mr_Model = ''gpt-4''\<rparr>"]
    C6_bad_request [of "requestOf ''/v1/completions'' bodyCutOff"
      sampleEnv True "\<lambda>k. False" bodyCutOff "\<lparr>mr_Model = ''gpt-4''\<rparr>"]
    C6_bad_request [of "requestOf ''/v1/chat/completions'' bodyBadMessages"
      sampleEnv True "\<lambda>k. False" bodyBadMessages "\<lparr>mr_Model = ''gpt-4''\<rparr>"]
  by (simp add: requestOf_def sampleEnv_def bodyCredit_def bodyStream_def bodyBadMessages_def
      bodyCutOff_def CreditErrorModelName_def writes_http_Error)

lemma readBody_pass:
  assumes "ReadAll (Body r) = Some body"
    and "jsonUnmarshalModel env body = Some mr"
    and "mr_Model mr \<noteq> CreditErrorModelName"
  shows "readBodyAndCheckCreditError env w r = (w, body, False)"
  using assms by (simp add: readBodyAndCheckCreditError_def)

lemma ServeHTTP_stream:
  assumes "Method r = ''POST''" and "Path r = ''/v1/chat/completions''"
    and "ReadAll (Body r) = Some body"
    and "jsonUnmarshalModel env body = Some mr"
    and "mr_Model mr \<noteq> CreditErrorModelName"
    and "jsonUnmarshalChat env body = Some req"
    and "IsSet (Stream req)" and "Value (Stream req)"
  shows "ServeHTTP env w r = Returned (handleStreamingRequest env w req)"
proof -
  have rb: "readBodyAndCheckCreditError env w r = (w, body, False)"
    using assms(3,4,5) by (rule readBody_pass)
  show ?thesis
    unfolding ServeHTTP_def
    by (simp add: assms(1,2,6,7,8) rb)
qed

lemma handleStreamingRequest_ok:
  assumes "jsonMarshalChunk env (streamChunks env req ! 0) = Some d1"
    and "jsonMarshalChunk env (streamChunks env req ! 1) = Some d2"
    and "jsonMarshalChunk env (streamChunks env req ! 2) = Some d3"
    and "\<not> fails 0" and "\<not> fails 1" and "\<not> fails 2"
  shows "events (handleStreamingRequest env (newResponse True fails) req) =
           [Wrote (''data: '' @ d1 @ ''\<newline>\<newline>''), Flushed,
            Wrote (''data: '' @ d2 @ ''\<newline>\<newline>''), Flushed,
            Wrote (''data: '' @ d3 @ ''\<newline>\<newline>''), Flushed,
            Wrote ''data: [DONE]\<newline>\<newline>'', Flushed]"
    and "status (handleStreamingRequest env (newResponse True fails) req) = Some 200"
    and "header (handleStreamingRequest env (newResponse True fails) req) ''Content-Type''
           = Some ''text/event-stream''"
  using assms
  by (simp_all add: handleStreamingRequest_def streamChunks_def Let_def writeSSEChunk_def
      Fprintf_def Write_def Flush_def WriteHeader_def HeaderSet_def newResponse_def writes_def
      writesOf_append Sprintf_frame Sprintf_done numeral_2_eq_2 del: Sprintf.simps)

subsection \<open>The streaming responder\<close>

lemma streamChunks_invariant:
  "\<forall>c \<in> set (streamChunks env req).
      Object c = ''chat.completion.chunk'' \<and> ck_Model c = rq_Model req
      \<and> SystemFingerprint c = ''fp_mock'' \<and> (\<exists>ch. Choices c = [ch] \<and> Index ch = 0)"
  by (simp add: streamChunks_def Let_def firstChunk_def contentChunk_def finalChunk_def)

lemma handleStreamingRequest_writes:
  "\<forall>x \<in> set (writes (handleStreamingRequest env (newResponse fl fails) req)).
      x = ''data: [DONE]\<newline>\<newline>'' \<or> x = ''Streaming not supported\<newline>''
      \<or> (\<exists>c \<in> set (streamChunks env req). \<exists>d. jsonMarshalChunk env c = Some d
            \<and> x = ''data: '' @ d @ ''\<newline>\<newline>'')"
  by (auto simp: handleStreamingRequest_def streamChunks_def Let_def writeSSEChunk_def
      Fprintf_def Write_def Flush_def WriteHeader_def HeaderSet_def HeaderDel_def http_Error_def
      newResponse_def writes_def
      writesOf_append Sprintf_frame Sprintf_done numeral_2_eq_2
      simp del: Sprintf.simps split: option.splits if_splits)

lemma streamChunks_shape:
  "streamChunks env req =
     [\<lparr>ID = ''chatcmpl-'' @ uuidNew env, Object = ''chat.completion.chunk'',
       Created = timeNow env, ck_Model = rq_Model req, SystemFingerprint = ''fp_mock'',
       Choices = [\<lparr>Index = 0, Delta = \<lparr>d_Role = ''assistant'', d_Content = []\<rparr>,
                   FinishReason = None\<rparr>]\<rparr>,
      \<lparr>ID = ''chatcmpl-'' @ uuidNew env, Object = ''chat.completion.chunk'',
       Created = timeNow env, ck_Model = rq_Model req, SystemFingerprint = ''fp_mock'',
       Choices = [\<lparr>Index = 0,
                   Delta = \<lparr>d_Role = [], d_Content = ''Echo: '' @ lastUserMessage (Messages req)\<rparr>,
                   FinishReason = None\<rparr>]\<rparr>,
      \<lparr>ID = ''chatcmpl-'' @ uuidNew env, Object = ''chat.completion.chunk'',
       Created = timeNow env, ck_Model = rq_Model req, SystemFingerprint = ''fp_mock'',
       Choices = [\<lparr>Index = 0, Delta = \<lparr>d_Role = [], d_Content = []\<rparr>,
                   FinishReason = Some ''stop''\<rparr>]\<rparr>]"
  by (simp add: streamChunks_def Let_def firstChunk_def contentChunk_def finalChunk_def
      generateEchoResponseForStreaming_def)

text \<open>
  C1 (as amended). For a POST to the chat-completions endpoint whose body decodes
  with a model other than the credit-error one and, in full, as a chat request with
  the streaming flag present and true: when the response writer supports flushing,
  the three chunks serialise and the first three writes succeed, the handler
  returns after writing exactly three data frames and then the terminal frame
  \<open>data: [DONE]\<close>, each followed by a flush, with status 200 and the event-stream
  content type. The first chunk has the role \<open>"assistant"\<close>, no content and no finish
  reason; the second has the whole echo text as its content and no finish reason;
  the third has an empty delta and the finish reason \<open>"stop"\<close>. The three chunks
  carry one identifier and one creation time.
\<close>

theorem C1_streaming_frames:
  assumes "Method r = ''POST''" and "Path r = ''/v1/chat/completions''"
    and "ReadAll (Body r) = Some body"
    and "jsonUnmarshalModel env body = Some mr"
    and "mr_Model mr \<noteq> CreditErrorModelName"
    and "jsonUnmarshalChat env body = Some req"
    and "IsSet (Stream req)" and "Value (Stream req)"
    and "\<forall>c \<in> set (streamChunks env req). jsonMarshalChunk env c \<noteq> None"
    and "\<not> fails 0" and "\<not> fails 1" and "\<not> fails 2"
  shows "\<exists>w' c1 c2 c3 d1 d2 d3.
      ServeHTTP env (newResponse True fails) r = Returned w'
    \<and> jsonMarshalChunk env c1 = Some d1
    \<and> jsonMarshalChunk env c2 = Some d2
    \<and> jsonMarshalChunk env c3 = Some d3
    \<and> events w' =
         [Wrote (''data: '' @ d1 @ ''\<newline>\<newline>''), Flushed,
          Wrote (''data: '' @ d2 @ ''\<newline>\<newline>''), Flushed,
          Wrote (''data: '' @ d3 @ ''\<newline>\<newline>''), Flushed,
          Wrote ''data: [DONE]\<newline>\<newline>'', Flushed]
    \<and> status w' = Some 200
    \<and> header w' ''Content-Type'' = Some ''text/event-stream''
    \<and> Choices c1 = [\<lparr>Index = 0, Delta = \<lparr>d_Role = ''assistant'', d_Content = []\<rparr>,
                       FinishReason = None\<rparr>]
    \<and> Choices c2 = [\<lparr>Index = 0,
                       Delta = \<lparr>d_Role = [], d_Content = ''Echo: '' @ lastUserMessage (Messages req)\<rparr>,
                       FinishReason = None\<rparr>]
    \<and> Choices c3 = [\<lparr>Index = 0, Delta = \<lparr>d_Role = [], d_Content = []\<rparr>,
                       FinishReason = Some ''stop''\<rparr>]
    \<and> ID c1 = ''chatcmpl-'' @ uuidNew env \<and> ID c2 = ID c1 \<and> ID c3 = ID c1
    \<and> Created c1 = timeNow env \<and> Created c2 = Created c1 \<and> Created c3 = Created c1"
proof -
  define c1 where "c1 = streamChunks env req ! 0"
  define c2 where "c2 = streamChunks env req ! 1"
  define c3 where "c3 = streamChunks env req ! 2"
  have mem: "c1 \<in> set (streamChunks env req)" "c2 \<in> set (streamChunks env req)"
    "c3 \<in> set (streamChunks env req)"
    by (simp_all add: c1_def c2_def c3_def streamChunks_shape)
  obtain d1 d2 d3 where d: "jsonMarshalChunk env c1 = Some d1"
    "jsonMarshalChunk env c2 = Some d2" "jsonMarshalChunk env c3 = Some d3"
    using assms(9) mem by blast
  have s: "ServeHTTP env (newResponse True fails) r
      = Returned (handleStreamingRequest env (newResponse True fails) req)"
    using assms(1-8) by (rule ServeHTTP_stream)
  note ok = handleStreamingRequest_ok [OF d [unfolded c1_def c2_def c3_def] assms(10-12)]
  have p: "Choices c1 = [\<lparr>Index = 0, Delta = \<lparr>d_Role = ''assistant'', d_Content = []\<rparr>,
                       FinishReason = None\<rparr>]"
    "Choices c2 = [\<lparr>Index = 0,
                       Delta = \<lparr>d_Role = [], d_Content = ''Echo: '' @ lastUserMessage (Messages req)\<rparr>,
                       FinishReason = None\<rparr>]"
    "Choices c3 = [\<lparr>Index = 0, Delta = \<lparr>d_Role = [], d_Content = []\<rparr>,
                       FinishReason = Some ''stop''\<rparr>]"
    "ID c1 = ''chatcmpl-'' @ uuidNew env" "ID c2 = ID c1" "ID c3 = ID c1"
    "Created c1 = timeNow env" "Created c2 = Created c1" "Created c3 = Created c1"
    by (simp_all add: c1_def c2_def c3_def streamChunks_shape)
  show ?thesis
    using s d ok p by blast
qed

lemma sample_sniff: "jsonUnmarshalModel sampleEnv bodyStream = Some \<lparr>mr_Model = ''gpt-4''\<rparr>"
  by (simp add: sampleEnv_def)

lemma sample_full: "jsonUnmarshalChat sampleEnv bodyStream = Some requestStream"
  by (simp add: sampleEnv_def)

lemma sample_chunks:
  "map (jsonMarshalChunk sampleEnv) (streamChunks sampleEnv requestStream) =
     [Some ''role=assistant content= finish_reason=null'',
      Some ''role= content=Echo: Hi finish_reason=null'',
      Some ''role= content= finish_reason=stop'']"
  by (simp add: streamChunks_shape lastUser_sample) (simp add: sampleEnv_def)

text \<open>An instance of C1 on the sample streaming request.\<close>

theorem C1_streaming_frames_witness:
  "events (outcomeWriter (ServeHTTP sampleEnv (newResponse True (\<lambda>k. False))
       (requestOf ''/v1/chat/completions'' bodyStream))) =
     [Wrote ''data: role=assistant content= finish_reason=null\<newline>\<newline>'', Flushed,
      Wrote ''data: role= content=Echo: Hi finish_reason=null\<newline>\<newline>'', Flushed,
      Wrote ''data: role= content= finish_reason=stop\<newline>\<newline>'', Flushed,
      Wrote ''data: [DONE]\<newline>\<newline>'', Flushed]
   \<and> status (outcomeWriter (ServeHTTP sampleEnv (newResponse True (\<lambda>k. False))
       (requestOf ''/v1/chat/completions'' bodyStream))) = Some 200"
proof -
  have m: "\<forall>c \<in> set (streamChunks sampleEnv requestStream). jsonMarshalChunk sampleEnv c \<noteq> None"
    by (simp add: sampleEnv_def)
  have g: "mr_Model \<lparr>mr_Model = ''gpt-4''\<rparr> \<noteq> CreditErrorModelName"
    by (simp add: CreditErrorModelName_def)
  have st: "IsSet (Stream requestStream)" "Value (Stream requestStream)"
    by (simp_all add: requestStream_def)
  have rq: "Method (requestOf ''/v1/chat/completions'' bodyStream) = ''POST''"
    "Path (requestOf ''/v1/chat/completions'' bodyStream) = ''/v1/chat/completions''"
    "ReadAll (Body (requestOf ''/v1/chat/completions'' bodyStream)) = Some bodyStream"
    by (simp_all add: requestOf_def)
  obtain w' c1 c2 c3 d1 d2 d3 where
    s: "ServeHTTP sampleEnv (newResponse True (\<lambda>k. False))
          (requestOf ''/v1/chat/completions'' bodyStream) = Returned w'"
    and d: "jsonMarshalChunk sampleEnv c1 = Some d1" "jsonMarshalChunk sampleEnv c2 = Some d2"
      "jsonMarshalChunk sampleEnv c3 = Some d3"
    and e: "events w' =
         [Wrote (''data: '' @ d1 @ ''\<newline>\<newline>''), Flushed,
          Wrote (''data: '' @ d2 @ ''\<newline>\<newline>''), Flushed,
          Wrote (''data: '' @ d3 @ ''\<newline>\<newline>''), Flushed,
          Wrote ''data: [DONE]\<newline>\<newline>'', Flushed]"
    and t: "status w' = Some 200"
    and c: "Choices c1 = [\<lparr>Index = 0, Delta = \<lparr>d_Role = ''assistant'', d_Content = []\<rparr>,
                       FinishReason = None\<rparr>]"
      "Choices c2 = [\<lparr>Index = 0,
                       Delta = \<lparr>d_Role = [], d_Content = ''Echo: '' @ lastUserMessage (Messages requestStream)\<rparr>,
                       FinishReason = None\<rparr>]"
      "Choices c3 = [\<lparr>Index = 0, Delta = \<lparr>d_Role = [], d_Content = []\<rparr>,
                       FinishReason = Some ''stop''\<rparr>]"
    using C1_streaming_frames [OF rq sample_sniff g sample_full st m, of "\<lambda>k. False"]
    by auto
  have "d1 = ''role=assistant content= finish_reason=null''"
    "d2 = ''role= content=Echo: Hi finish_reason=null''"
    "d3 = ''role= content= finish_reason=stop''"
    using d c by (simp_all add: sampleEnv_def lastUser_sample)
  then show ?thesis
    using s e t by (simp add: outcomeWriter_def)
qed

text \<open>
  C1 as stated, for every streaming request, fails where the transport does: when
  the first write returns an error the handler stops after that single write and
  never writes the terminal frame, and when the writer cannot flush the handler
  answers with status 500 and no frame at all.
\<close>

theorem C1_transport_counterexample:
  "writes (outcomeWriter (ServeHTTP sampleEnv (newResponse True (\<lambda>k. True))
       (requestOf ''/v1/chat/completions'' bodyStream))) =
     [''data: role=assistant content= finish_reason=null\<newline>\<newline>'']
   \<and> writes (outcomeWriter (ServeHTTP sampleEnv (newResponse False (\<lambda>k. False))
       (requestOf ''/v1/chat/completions'' bodyStream))) = [''Streaming not supported\<newline>'']
   \<and> status (outcomeWriter (ServeHTTP sampleEnv (newResponse False (\<lambda>k. False))
       (requestOf ''/v1/chat/completions'' bodyStream))) = Some 500"
proof -
  have g: "mr_Model \<lparr>mr_Model = ''gpt-4''\<rparr> \<noteq> CreditErrorModelName"
    by (simp add: CreditErrorModelName_def)
  have st: "IsSet (Stream requestStream)" "Value (Stream requestStream)"
    by (simp_all add: requestStream_def)
  have rq: "Method (requestOf ''/v1/chat/completions'' bodyStream) = ''POST''"
    "Path (requestOf ''/v1/chat/completions'' bodyStream) = ''/v1/chat/completions''"
    "ReadAll (Body (requestOf ''/v1/chat/completions'' bodyStream)) = Some bodyStream"
    by (simp_all add: requestOf_def)
  have s: "ServeHTTP sampleEnv w (requestOf ''/v1/chat/completions'' bodyStream)
      = Returned (handleStreamingRequest sampleEnv w requestStream)" for w
    using rq sample_sniff g sample_full st by (rule ServeHTTP_stream)
  have m1: "jsonMarshalChunk sampleEnv (firstChunk i t requestStream)
      = Some ''role=assistant content= finish_reason=null''" for i t
    by (simp add: firstChunk_def) (simp add: sampleEnv_def)
  have a: "writes (handleStreamingRequest sampleEnv (newResponse True (\<lambda>k. True)) requestStream)
      = [''data: role=assistant content= finish_reason=null\<newline>\<newline>'']"
    by (simp add: handleStreamingRequest_def Let_def writeSSEChunk_def m1
        Fprintf_def Write_def WriteHeader_def HeaderSet_def newResponse_def writes_def
        writesOf_append)
  have b: "writes (handleStreamingRequest sampleEnv (newResponse False (\<lambda>k. False)) requestStream)
      = [''Streaming not supported\<newline>'']"
    "status (handleStreamingRequest sampleEnv (newResponse False (\<lambda>k. False)) requestStream)
      = Some 500"
    by (simp_all add: handleStreamingRequest_def Let_def http_Error_def
        Write_def WriteHeader_def HeaderSet_def HeaderDel_def newResponse_def writes_def
        writesOf_append)
  show ?thesis
    by (simp add: s outcomeWriter_def a b)
qed

text \<open>
  C10. Each of the three chunks of a streaming response has the object
  \<open>"chat.completion.chunk"\<close>, the model of the request, the system fingerprint
  \<open>"fp_mock"\<close> and exactly one choice, of index 0. Whatever the transport does,
  everything the streaming responder writes is the frame of one of these chunks,
  the terminal frame, or the text of the 500 answer.
\<close>

theorem C10_chunk_invariants:
  "(\<forall>c \<in> set (streamChunks env req).
      Object c = ''chat.completion.chunk'' \<and> ck_Model c = rq_Model req
      \<and> SystemFingerprint c = ''fp_mock'' \<and> (\<exists>ch. Choices c = [ch] \<and> Index ch = 0))
   \<and> length (streamChunks env req) = 3
   \<and> (\<forall>x \<in> set (writes (handleStreamingRequest env (newResponse fl fails) req)).
        x = ''data: [DONE]\<newline>\<newline>'' \<or> x = ''Streaming not supported\<newline>''
        \<or> (\<exists>c \<in> set (streamChunks env req). \<exists>d. jsonMarshalChunk env c = Some d
              \<and> x = ''data: '' @ d @ ''\<newline>\<newline>''))"
  using streamChunks_invariant [of env req] handleStreamingRequest_writes [of env fl fails req]
  by (simp add: streamChunks_shape)

text \<open>An instance of C10 on the sample streaming request.\<close>

theorem C10_chunk_invariants_witness:
  "map Object (streamChunks sampleEnv requestStream) =
     [''chat.completion.chunk'', ''chat.completion.chunk'', ''chat.completion.chunk'']
   \<and> map ck_Model (streamChunks sampleEnv requestStream) = [''gpt-4'', ''gpt-4'', ''gpt-4'']
   \<and> map SystemFingerprint (streamChunks sampleEnv requestStream) = [''fp_mock'', ''fp_mock'', ''fp_mock'']
   \<and> map (\<lambda>c. map Index (Choices c)) (streamChunks sampleEnv requestStream) = [[0], [0], [0]]"
  using C10_chunk_invariants [of sampleEnv requestStream True "\<lambda>k. False"]
  by (simp add: streamChunks_shape requestStream_def)

end
